theory Spec2Isabelle
  imports Main "HOL-Library.Word" "HOL-Library.AList"
begin

section \<open>JavaScript strings\<close>

text \<open>
  A JavaScript string is a sequence of UTF-16 code units. The free text that reaches
  \<^verbatim>\<open>server/routes.ts\<close> (chat lines, connection ids, directions) is arbitrary, so it
  is kept as a list of 16-bit words; \<open>js\<close> embeds an ASCII literal of the source.
\<close>

type_synonym js_string = "16 word list"

definition js :: "string \<Rightarrow> js_string" where
  "js lit = map (\<lambda>c. of_nat (of_char c)) lit"

text \<open>\<^verbatim>\<open>s.startsWith(p)\<close> and \<^verbatim>\<open>s.includes(p)\<close> (named \<open>includes_js\<close>, as \<open>includes\<close> is reserved).\<close>

fun startsWith :: "js_string \<Rightarrow> js_string \<Rightarrow> bool" where
  "startsWith s [] = True"
| "startsWith [] (p # ps) = False"
| "startsWith (c # cs) (p # ps) = (c = p \<and> startsWith cs ps)"

fun includes_js :: "js_string \<Rightarrow> js_string \<Rightarrow> bool" where
  "includes_js [] p = startsWith [] p"
| "includes_js (c # cs) p = (startsWith (c # cs) p \<or> includes_js cs p)"

text \<open>
  \<^verbatim>\<open>s.trim()\<close> removes leading and trailing WhiteSpace and LineTerminator code points
  (ECMAScript: TAB, LF, VT, FF, CR, SP, NBSP, U+1680, U+2000 to U+200A, U+2028, U+2029,
  U+202F, U+205F, U+3000 and U+FEFF).
\<close>

definition is_js_whitespace :: "16 word \<Rightarrow> bool" where
  "is_js_whitespace c \<longleftrightarrow>
     (0x09 \<le> c \<and> c \<le> 0x0D) \<or> c = 0x20 \<or> c = 0xA0 \<or> c = 0x1680 \<or>
     (0x2000 \<le> c \<and> c \<le> 0x200A) \<or> c = 0x2028 \<or> c = 0x2029 \<or> c = 0x202F \<or>
     c = 0x205F \<or> c = 0x3000 \<or> c = 0xFEFF"

definition trim :: "js_string \<Rightarrow> js_string" where
  "trim s = rev (dropWhile is_js_whitespace (rev (dropWhile is_js_whitespace s)))"

text \<open>
  The regular expression \<^verbatim>\<open>/\[\d{2}:\d{2}:\d{2}\]\[Server\]\[Player\]/\<close>: \<open>\d\<close> is an
  ASCII digit, and \<^verbatim>\<open>s.match(re)\<close> is truthy when the pattern occurs at any offset.
\<close>

definition is_digit :: "16 word \<Rightarrow> bool" where
  "is_digit c \<longleftrightarrow> 0x30 \<le> c \<and> c \<le> 0x39"

definition timestamp_here :: "js_string \<Rightarrow> bool" where
  "timestamp_here s =
     (case s of
        b # h1 # h2 # c1 # m1 # m2 # c2 # s1 # s2 # e # rest \<Rightarrow>
          b = 0x5B \<and> is_digit h1 \<and> is_digit h2 \<and> c1 = 0x3A \<and>
          is_digit m1 \<and> is_digit m2 \<and> c2 = 0x3A \<and>
          is_digit s1 \<and> is_digit s2 \<and> e = 0x5D \<and>
          startsWith rest (js ''[Server][Player]'')
      | _ \<Rightarrow> False)"

fun matches_timestamp :: "js_string \<Rightarrow> bool" where
  "matches_timestamp [] = False"
| "matches_timestamp (c # cs) = (timestamp_here (c # cs) \<or> matches_timestamp cs)"

text \<open>
  The condition of the \<^verbatim>\<open>if\<close> in the \<^verbatim>\<open>'message'\<close> listener, conjunct by conjunct:
  a string is truthy when it is not empty; \<open>0x3C\<close> is \<^verbatim>\<open><\<close> and \<open>0xBB\<close> is the
  double angle quotation mark.
\<close>

definition is_system_message :: "js_string \<Rightarrow> bool" where
  "is_system_message message \<longleftrightarrow>
     message \<noteq> [] \<and>
     \<not> startsWith message [0x3C] \<and>
     \<not> includes_js message [0xBB] \<and>
     \<not> includes_js message (js ''[Player]'') \<and>
     \<not> matches_timestamp message \<and>
     trim message \<noteq> []"

section \<open>Data model\<close>

text \<open>
  Objects with identity (sockets, bot handles, interval timers) are numbered. A
  \<open>BotInstance\<close> is the interface of the source; its \<open>bot\<close> field has type
  \<^verbatim>\<open>any\<close>, and the handlers test it for truthiness, so \<open>None\<close> stands for a falsy value.
\<close>

type_synonym socket = nat
type_synonym bot_handle = nat
type_synonym timer = nat

record BotInstance =
  bot :: "bot_handle option"
  connectionId :: js_string
  ws :: socket

text \<open>
  A thrown or rejected value is an \<^verbatim>\<open>Error\<close> with its message, or something else
  (the \<^verbatim>\<open>error instanceof Error\<close> test of the catch block tells them apart).
\<close>

datatype thrown = Error_obj js_string | Other_value

text \<open>The argument of \<^verbatim>\<open>mineflayer.createBot\<close>; the port is 25565 or \<^verbatim>\<open>parseInt\<close> of a text.\<close>

datatype port_option = Default_25565 | ParseInt js_string

record bot_options =
  opt_host :: js_string
  opt_port :: port_option
  opt_username :: js_string
  opt_version :: js_string
  opt_auth :: js_string

text \<open>
  Calls on the storage module. The record a create call resolves to is the submitted
  fields with an id and a timestamp; the model carries the submitted fields.
\<close>

datatype log_level = Info | Warning | Error_level
datatype message_type = Chat_type | System_type | Join_type | Leave_type | Death_type | Console_type
datatype connection_update = IsConnected bool | LastPing int

datatype storage_call =
    UpdateBotConnection js_string connection_update
  | CreateBotLog js_string log_level js_string
  | CreateChatMessage js_string js_string js_string message_type bool

type_synonym position = "js_string \<times> js_string \<times> js_string"

text \<open>Frames sent to a control socket (\<^verbatim>\<open>ws.send(JSON.stringify(...))\<close>).\<close>

datatype frame =
    Bot_connected js_string js_string
  | Bot_disconnected js_string
  | Chat_message js_string js_string js_string message_type bool
  | Ping_update int
  | Position_update position
  | Connection_error js_string
  | Bot_error js_string
  | Error_frame js_string

datatype adapter_call = Quit | Chat js_string | SetControlState js_string bool

text \<open>The closure handed to \<^verbatim>\<open>setTimeout\<close>: one call on a bot.\<close>

datatype callback = Callback bot_handle adapter_call

text \<open>Everything the handlers do to the world outside the registry, in program order.\<close>

datatype effect =
    Storage storage_call
  | WsSend socket frame
  | Adapter bot_handle adapter_call
  | CreateBot bot_options bot_handle
  | SetInterval timer nat
  | ClearInterval timer
  | SetTimeout nat callback
  | HttpResponse nat

text \<open>
  The variables the listeners of one bot close over: \<^verbatim>\<open>connectionId\<close>, \<^verbatim>\<open>username\<close>,
  \<^verbatim>\<open>ws\<close> and \<^verbatim>\<open>updateInterval\<close> of the \<^verbatim>\<open>handleBotConnect\<close> call that created it.
\<close>

record listener_closure =
  cl_connectionId :: js_string
  cl_username :: js_string
  cl_ws :: socket
  cl_updateInterval :: timer

text \<open>
  The state: \<open>activeBots\<close> is the module-level \<^verbatim>\<open>Map\<close>, kept in insertion order as an
  association list (\<^verbatim>\<open>Map.set\<close> is \<open>AList.update\<close>, \<^verbatim>\<open>Map.delete\<close> is
  \<open>AList.delete\<close>, \<^verbatim>\<open>Map.get\<close> is \<open>map_of\<close>); \<open>listeners\<close> holds the closures of
  the bots created so far; \<open>intervals\<close> are the running interval timers and
  \<open>timeouts\<close> the pending one-shot timers; \<open>trace\<close> is the list of effects so far.
\<close>

record state =
  activeBots :: "(js_string \<times> BotInstance) list"
  listeners :: "(bot_handle \<times> listener_closure) list"
  intervals :: "timer list"
  timeouts :: "(nat \<times> callback) list"
  trace :: "effect list"
  next_bot :: bot_handle
  next_timer :: timer

definition init :: state where
  "init = \<lparr>activeBots = [], listeners = [], intervals = [], timeouts = [], trace = [],
           next_bot = 0, next_timer = 0\<rparr>"

text \<open>
  What the code cannot decide: whether the mineflayer module is there, whether
  \<^verbatim>\<open>createBot\<close> throws, which storage calls reject, and \<^verbatim>\<open>bot.username\<close>.
\<close>

record env =
  mineflayer :: bool
  createBot_throws :: "bot_options \<Rightarrow> thrown option"
  storage_rejects :: "storage_call \<Rightarrow> thrown option"
  bot_username :: "bot_handle \<Rightarrow> js_string"

section \<open>Handlers\<close>

text \<open>
  An \<^verbatim>\<open>async\<close> function either returns or rejects with the value thrown; it works on
  the state either way. Its statements run in program order, and an \<^verbatim>\<open>await\<close> of a
  rejecting call abandons the rest. Each handler is taken to run to its end before the
  next input is handled.
\<close>

datatype outcome = Returned | Rejected thrown

type_synonym handler = "state \<Rightarrow> outcome \<times> state"

definition perform :: "effect \<Rightarrow> handler" where
  "perform e s = (Returned, s\<lparr>trace := trace s @ [e]\<rparr>)"

definition skip :: handler where
  "skip s = (Returned, s)"

definition ws_send :: "socket \<Rightarrow> frame \<Rightarrow> handler" where
  "ws_send sock fr = perform (WsSend sock fr)"

definition await_storage :: "env \<Rightarrow> storage_call \<Rightarrow> handler" where
  "await_storage E c s =
     ((case storage_rejects E c of None \<Rightarrow> Returned | Some x \<Rightarrow> Rejected x),
      s\<lparr>trace := trace s @ [Storage c]\<rparr>)"

fun in_order :: "handler list \<Rightarrow> handler" where
  "in_order [] s = (Returned, s)"
| "in_order (f # fs) s =
     (case f s of (Returned, s') \<Rightarrow> in_order fs s' | (Rejected x, s') \<Rightarrow> (Rejected x, s'))"

definition map_delete :: "js_string \<Rightarrow> handler" where
  "map_delete cid s = (Returned, s\<lparr>activeBots := AList.delete cid (activeBots s)\<rparr>)"

definition clearInterval :: "timer \<Rightarrow> handler" where
  "clearInterval t s =
     (Returned, s\<lparr>intervals := removeAll t (intervals s), trace := trace s @ [ClearInterval t]\<rparr>)"

text \<open>\<^verbatim>\<open>if (botInstance.bot) { botInstance.bot.quit(); }\<close>\<close>

definition quit_if_bot :: "BotInstance \<Rightarrow> handler" where
  "quit_if_bot bi = (case bot bi of Some b \<Rightarrow> perform (Adapter b Quit) | None \<Rightarrow> skip)"

subsection \<open>The listeners attached by \<^verbatim>\<open>handleBotConnect\<close>\<close>

definition on_login :: "env \<Rightarrow> listener_closure \<Rightarrow> position option \<Rightarrow> handler" where
  "on_login E cl entity =
     in_order
       [await_storage E (UpdateBotConnection (cl_connectionId cl) (IsConnected True)),
        await_storage E (CreateBotLog (cl_connectionId cl) Info
          (js ''Bot '' @ cl_username cl @ js '' successfully logged into server'')),
        ws_send (cl_ws cl) (Bot_connected (cl_connectionId cl) (cl_username cl)),
        (case entity of
           Some pos \<Rightarrow> ws_send (cl_ws cl) (Position_update pos)
         | None \<Rightarrow> skip)]"

text \<open>
  The listeners that store a chat entry and relay the stored record:
  \<^verbatim>\<open>const m = await storage.createChatMessage({...}); ws.send(...)\<close>.
\<close>

definition store_and_relay ::
  "env \<Rightarrow> listener_closure \<Rightarrow> js_string \<Rightarrow> js_string \<Rightarrow> message_type \<Rightarrow> handler" where
  "store_and_relay E cl uname text ty =
     in_order
       [await_storage E (CreateChatMessage (cl_connectionId cl) uname text ty False),
        ws_send (cl_ws cl) (Chat_message (cl_connectionId cl) uname text ty False)]"

definition on_chat :: "env \<Rightarrow> listener_closure \<Rightarrow> js_string \<Rightarrow> js_string \<Rightarrow> handler" where
  "on_chat E cl uname message = store_and_relay E cl uname message Chat_type"

definition on_message :: "env \<Rightarrow> listener_closure \<Rightarrow> js_string \<Rightarrow> handler" where
  "on_message E cl message =
     (if is_system_message message
      then store_and_relay E cl (js ''Server'') message System_type
      else skip)"

definition on_playerJoined :: "env \<Rightarrow> listener_closure \<Rightarrow> js_string \<Rightarrow> handler" where
  "on_playerJoined E cl player_name =
     store_and_relay E cl (js ''Server'') (player_name @ js '' joined the game'') Join_type"

definition on_playerLeft :: "env \<Rightarrow> listener_closure \<Rightarrow> js_string \<Rightarrow> handler" where
  "on_playerLeft E cl player_name =
     store_and_relay E cl (js ''Server'') (player_name @ js '' left the game'') Leave_type"

definition on_death :: "env \<Rightarrow> bot_handle \<Rightarrow> listener_closure \<Rightarrow> handler" where
  "on_death E b cl =
     store_and_relay E cl (js ''Server'') (bot_username E b @ js '' died'') Death_type"

definition on_error :: "env \<Rightarrow> listener_closure \<Rightarrow> js_string \<Rightarrow> handler" where
  "on_error E cl err_message =
     in_order
       [await_storage E (CreateBotLog (cl_connectionId cl) Error_level
          (js ''Bot error: '' @ err_message)),
        ws_send (cl_ws cl) (Bot_error err_message)]"

text \<open>The two \<^verbatim>\<open>'end'\<close> listeners, in the order they are attached.\<close>

definition on_end :: "env \<Rightarrow> listener_closure \<Rightarrow> handler" where
  "on_end E cl =
     in_order
       [await_storage E (UpdateBotConnection (cl_connectionId cl) (IsConnected False)),
        await_storage E (CreateBotLog (cl_connectionId cl) Warning
          (js ''Bot '' @ cl_username cl @ js '' disconnected from server'')),
        map_delete (cl_connectionId cl),
        ws_send (cl_ws cl) (Bot_disconnected (cl_connectionId cl))]"

definition on_end_cleanup :: "listener_closure \<Rightarrow> handler" where
  "on_end_cleanup cl = clearInterval (cl_updateInterval cl)"

text \<open>
  The \<^verbatim>\<open>setInterval\<close> callback. It reads \<^verbatim>\<open>bot.player\<close> (absent, or with a ping that
  may be undefined: \<^verbatim>\<open>bot.player.ping || 0\<close>), \<^verbatim>\<open>ws.readyState\<close> and \<^verbatim>\<open>bot.entity\<close>;
  its storage call is not awaited, so a rejection is dropped.
\<close>

datatype player = Player "int option"

definition on_interval ::
  "listener_closure \<Rightarrow> player option \<Rightarrow> bool \<Rightarrow> position option \<Rightarrow> handler" where
  "on_interval cl bot_player ws_open entity =
     (case bot_player of
        Some (Player p) \<Rightarrow>
          if ws_open then
            (let ping = (case p of Some n \<Rightarrow> n | None \<Rightarrow> 0) in
             in_order
               [perform (Storage (UpdateBotConnection (cl_connectionId cl) (LastPing ping))),
                ws_send (cl_ws cl) (Ping_update ping),
                (case entity of
                   Some pos \<Rightarrow> ws_send (cl_ws cl) (Position_update pos)
                 | None \<Rightarrow> skip)])
          else skip
      | None \<Rightarrow> skip)"

subsection \<open>\<^verbatim>\<open>handleBotConnect\<close>\<close>

text \<open>\<^verbatim>\<open>serverIp.split(':')\<close> and the options built from its first two segments.\<close>

fun split_colon :: "js_string \<Rightarrow> js_string list" where
  "split_colon [] = [[]]"
| "split_colon (c # cs) =
     (if c = 0x3A then [] # split_colon cs
      else (case split_colon cs of seg # segs \<Rightarrow> (c # seg) # segs | [] \<Rightarrow> [[c]]))"

definition createBot_options :: "js_string \<Rightarrow> js_string \<Rightarrow> js_string \<Rightarrow> bot_options" where
  "createBot_options uname serverIp version =
     (let segs = split_colon serverIp;
          h = (case segs of seg # _ \<Rightarrow> seg | [] \<Rightarrow> []);
          p = (case segs of _ # seg # _ \<Rightarrow> (if seg \<noteq> [] then ParseInt seg else Default_25565)
               | _ \<Rightarrow> Default_25565)
      in \<lparr>opt_host = h, opt_port = p, opt_username = uname, opt_version = version,
          opt_auth = js ''offline''\<rparr>)"

definition handleBotConnect ::
  "env \<Rightarrow> socket \<Rightarrow> js_string \<Rightarrow> js_string \<Rightarrow> js_string \<Rightarrow> js_string \<Rightarrow> handler" where
  "handleBotConnect E sock cid uname serverIp version s =
     (if \<not> mineflayer E then
        ws_send sock (Connection_error
          (js ''Mineflayer not available. Please install the mineflayer package.'')) s
      else
        (case createBot_throws E (createBot_options uname serverIp version) of
           None \<Rightarrow>
             (let b = next_bot s; t = next_timer s in
              (Returned,
               s\<lparr>activeBots :=
                    AList.update cid \<lparr>bot = Some b, connectionId = cid, ws = sock\<rparr> (activeBots s),
                  listeners :=
                    AList.update b \<lparr>cl_connectionId = cid, cl_username = uname, cl_ws = sock,
                                    cl_updateInterval = t\<rparr> (listeners s),
                  intervals := intervals s @ [t],
                  trace := trace s @
                    [CreateBot (createBot_options uname serverIp version) b, SetInterval t 2000],
                  next_bot := Suc b,
                  next_timer := Suc t\<rparr>))
         | Some x \<Rightarrow>
             in_order
               [await_storage E (CreateBotLog cid Error_level
                  (js ''Failed to connect: '' @
                   (case x of Error_obj m \<Rightarrow> m | Other_value \<Rightarrow> js ''Unknown error''))),
                ws_send sock (Connection_error
                  (case x of Error_obj m \<Rightarrow> m | Other_value \<Rightarrow> js ''Failed to connect to server''))]
               s))"

subsection \<open>The other request handlers\<close>

definition handleBotDisconnect :: "env \<Rightarrow> socket \<Rightarrow> js_string \<Rightarrow> handler" where
  "handleBotDisconnect E sock cid s =
     (case map_of (activeBots s) cid of
        Some botInstance \<Rightarrow>
          in_order
            [quit_if_bot botInstance,
             map_delete cid,
             await_storage E (UpdateBotConnection cid (IsConnected False))] s
      | None \<Rightarrow> (Returned, s))"

definition handleSendChat :: "env \<Rightarrow> socket \<Rightarrow> js_string \<Rightarrow> js_string \<Rightarrow> handler" where
  "handleSendChat E sock cid message s =
     (case map_of (activeBots s) cid of
        Some botInstance \<Rightarrow>
          (case bot botInstance of
             Some b \<Rightarrow>
               in_order
                 [perform (Adapter b (Chat message)),
                  await_storage E
                    (CreateChatMessage cid (bot_username E b) message Chat_type False),
                  await_storage E (CreateBotLog cid Info (js ''Sent chat: '' @ message))] s
           | None \<Rightarrow> (Returned, s))
      | None \<Rightarrow> (Returned, s))"

definition handleSendCommand :: "env \<Rightarrow> socket \<Rightarrow> js_string \<Rightarrow> js_string \<Rightarrow> handler" where
  "handleSendCommand E sock cid command s =
     (case map_of (activeBots s) cid of
        Some botInstance \<Rightarrow>
          (case bot botInstance of
             Some b \<Rightarrow>
               in_order
                 [perform (Adapter b (Chat command)),
                  await_storage E
                    (CreateChatMessage cid (bot_username E b) command Console_type True),
                  await_storage E (CreateBotLog cid Info (js ''Executed command: '' @ command))] s
           | None \<Rightarrow> (Returned, s))
      | None \<Rightarrow> (Returned, s))"

definition setTimeout :: "callback \<Rightarrow> nat \<Rightarrow> handler" where
  "setTimeout cb delay s =
     (Returned, s\<lparr>timeouts := timeouts s @ [(delay, cb)],
                  trace := trace s @ [SetTimeout delay cb]\<rparr>)"

definition handleBotMovement ::
  "socket \<Rightarrow> js_string \<Rightarrow> js_string \<Rightarrow> js_string \<Rightarrow> handler" where
  "handleBotMovement sock cid direction action s =
     (case map_of (activeBots s) cid of
        Some botInstance \<Rightarrow>
          (case bot botInstance of
             Some b \<Rightarrow>
               (if direction = js ''forward'' then
                  perform (Adapter b (SetControlState (js ''forward'') (action = js ''start''))) s
                else if direction = js ''back'' then
                  perform (Adapter b (SetControlState (js ''back'') (action = js ''start''))) s
                else if direction = js ''left'' then
                  perform (Adapter b (SetControlState (js ''left'') (action = js ''start''))) s
                else if direction = js ''right'' then
                  perform (Adapter b (SetControlState (js ''right'') (action = js ''start''))) s
                else if direction = js ''jump'' then
                  (if action = js ''start'' then
                     in_order
                       [perform (Adapter b (SetControlState (js ''jump'') True)),
                        setTimeout (Callback b (SetControlState (js ''jump'') False)) 100] s
                   else (Returned, s))
                else (Returned, s))
           | None \<Rightarrow> (Returned, s))
      | None \<Rightarrow> (Returned, s))"

subsection \<open>The control socket\<close>

text \<open>
  A decoded frame \<^verbatim>\<open>{type, data}\<close> with the fields its type carries; \<open>Other_type\<close> is
  any type the \<^verbatim>\<open>switch\<close> has no case for. \<open>Unparseable\<close> is a payload on which
  \<^verbatim>\<open>JSON.parse\<close> throws.
\<close>

datatype request =
    Connect_bot js_string js_string js_string js_string
  | Disconnect_bot js_string
  | Send_chat js_string js_string
  | Send_command js_string js_string
  | Move_bot js_string js_string js_string
  | Other_type js_string

datatype inbound = Unparseable | Frame request

fun handleWebSocketMessage :: "env \<Rightarrow> socket \<Rightarrow> request \<Rightarrow> handler" where
  "handleWebSocketMessage E sock (Connect_bot cid uname serverIp version) =
     handleBotConnect E sock cid uname serverIp version"
| "handleWebSocketMessage E sock (Disconnect_bot cid) = handleBotDisconnect E sock cid"
| "handleWebSocketMessage E sock (Send_chat cid message) = handleSendChat E sock cid message"
| "handleWebSocketMessage E sock (Send_command cid command) =
     handleSendCommand E sock cid command"
| "handleWebSocketMessage E sock (Move_bot cid direction action) =
     handleBotMovement sock cid direction action"
| "handleWebSocketMessage E sock (Other_type ty) =
     ws_send sock (Error_frame (js ''Unknown message type''))"

text \<open>The \<^verbatim>\<open>ws.on('message')\<close> listener: whatever is thrown ends in its catch block.\<close>

definition ws_on_message :: "env \<Rightarrow> socket \<Rightarrow> inbound \<Rightarrow> state \<Rightarrow> state" where
  "ws_on_message E sock data s =
     (case data of
        Unparseable \<Rightarrow> snd (ws_send sock (Error_frame (js ''Invalid message format'')) s)
      | Frame message \<Rightarrow>
          (case handleWebSocketMessage E sock message s of
             (Returned, s') \<Rightarrow> s'
           | (Rejected x, s') \<Rightarrow>
               snd (ws_send sock (Error_frame (js ''Invalid message format'')) s')))"

text \<open>
  The \<^verbatim>\<open>ws.on('close')\<close> listener: a \<^verbatim>\<open>for\<close> loop over the entries of the map, in
  insertion order, that leaves at its \<^verbatim>\<open>break\<close>.
\<close>

fun close_loop :: "socket \<Rightarrow> (js_string \<times> BotInstance) list \<Rightarrow> state \<Rightarrow> state" where
  "close_loop sock [] s = s"
| "close_loop sock ((cid, botInstance) # entries) s =
     (if ws botInstance = sock
      then snd (in_order [quit_if_bot botInstance, map_delete cid] s)
      else close_loop sock entries s)"

definition ws_on_close :: "socket \<Rightarrow> state \<Rightarrow> state" where
  "ws_on_close sock s = close_loop sock (activeBots s) s"

subsection \<open>The administrative route\<close>

text \<open>
  \<^verbatim>\<open>DELETE /api/admin/connections/:id\<close>; \<open>ws_open\<close> is the result of the test
  \<^verbatim>\<open>botInstance.ws.readyState === WebSocket.OPEN\<close>.
\<close>

definition admin_delete :: "env \<Rightarrow> js_string \<Rightarrow> bool \<Rightarrow> state \<Rightarrow> state" where
  "admin_delete E cid ws_open s =
     (case (case map_of (activeBots s) cid of
              Some botInstance \<Rightarrow>
                in_order
                  [quit_if_bot botInstance,
                   map_delete cid,
                   await_storage E (UpdateBotConnection cid (IsConnected False)),
                   (if ws_open then ws_send (ws botInstance) (Bot_disconnected cid) else skip)] s
            | None \<Rightarrow> (Returned, s)) of
        (Returned, s') \<Rightarrow> snd (perform (HttpResponse 200) s')
      | (Rejected x, s') \<Rightarrow> snd (perform (HttpResponse 500) s'))"

subsection \<open>Events of the adapter and of the timers\<close>

text \<open>
  An event emitted by a bot runs the listeners attached to that bot; the promise an
  \<^verbatim>\<open>async\<close> listener returns is dropped by the emitter, so its outcome is too.
\<close>

datatype event =
    Login "position option"
  | Chat_event js_string js_string
  | Message js_string
  | PlayerJoined js_string
  | PlayerLeft js_string
  | Death
  | Error_event js_string
  | End

fun run_listeners :: "env \<Rightarrow> bot_handle \<Rightarrow> listener_closure \<Rightarrow> event \<Rightarrow> state \<Rightarrow> state" where
  "run_listeners E b cl (Login entity) s = snd (on_login E cl entity s)"
| "run_listeners E b cl (Chat_event uname message) s = snd (on_chat E cl uname message s)"
| "run_listeners E b cl (Message message) s = snd (on_message E cl message s)"
| "run_listeners E b cl (PlayerJoined player_name) s = snd (on_playerJoined E cl player_name s)"
| "run_listeners E b cl (PlayerLeft player_name) s = snd (on_playerLeft E cl player_name s)"
| "run_listeners E b cl Death s = snd (on_death E b cl s)"
| "run_listeners E b cl (Error_event err_message) s = snd (on_error E cl err_message s)"
| "run_listeners E b cl End s = snd (on_end_cleanup cl (snd (on_end E cl s)))"

definition bot_emit :: "env \<Rightarrow> bot_handle \<Rightarrow> event \<Rightarrow> state \<Rightarrow> state" where
  "bot_emit E b ev s =
     (case map_of (listeners s) b of
        Some cl \<Rightarrow> run_listeners E b cl ev s
      | None \<Rightarrow> s)"

text \<open>A tick of the interval of bot \<open>b\<close>; a cleared interval does not tick.\<close>

definition interval_tick ::
  "bot_handle \<Rightarrow> player option \<Rightarrow> bool \<Rightarrow> position option \<Rightarrow> state \<Rightarrow> state" where
  "interval_tick b bot_player ws_open entity s =
     (case map_of (listeners s) b of
        Some cl \<Rightarrow>
          if cl_updateInterval cl \<in> set (intervals s)
          then snd (on_interval cl bot_player ws_open entity s)
          else s
      | None \<Rightarrow> s)"

text \<open>The oldest pending timeout elapses and its callback runs.\<close>

definition timeout_elapsed :: "state \<Rightarrow> state" where
  "timeout_elapsed s =
     (case timeouts s of
        [] \<Rightarrow> s
      | (delay, Callback b c) # pending \<Rightarrow>
          snd (perform (Adapter b c) (s\<lparr>timeouts := pending\<rparr>)))"

subsection \<open>Runs\<close>

datatype input =
    Ws_message socket inbound
  | Ws_close socket
  | Bot_event bot_handle event
  | Interval_tick bot_handle "player option" bool "position option"
  | Timeout_elapsed
  | Admin_delete js_string bool

fun step :: "env \<Rightarrow> state \<Rightarrow> input \<Rightarrow> state" where
  "step E s (Ws_message sock data) = ws_on_message E sock data s"
| "step E s (Ws_close sock) = ws_on_close sock s"
| "step E s (Bot_event b ev) = bot_emit E b ev s"
| "step E s (Interval_tick b bot_player ws_open entity) =
     interval_tick b bot_player ws_open entity s"
| "step E s Timeout_elapsed = timeout_elapsed s"
| "step E s (Admin_delete cid ws_open) = admin_delete E cid ws_open s"

definition run :: "env \<Rightarrow> input list \<Rightarrow> state" where
  "run E inputs = foldl (step E) init inputs"

text \<open>The effects a step or a handler added to the trace of \<open>s\<close>.\<close>

definition new_effects :: "state \<Rightarrow> state \<Rightarrow> effect list" where
  "new_effects s s' = drop (length (trace s)) (trace s')"

section \<open>Concrete environments and states\<close>

text \<open>
  \<open>env_ok\<close>: the module is loaded, \<^verbatim>\<open>createBot\<close> returns and storage resolves.
  \<open>env_storage_down\<close>: the same, but every storage call rejects.
  \<open>env_no_connect\<close>: \<^verbatim>\<open>createBot\<close> throws an \<^verbatim>\<open>Error\<close>.
\<close>

definition env_ok :: env where
  "env_ok = \<lparr>mineflayer = True, createBot_throws = (\<lambda>_. None),
             storage_rejects = (\<lambda>_. None), bot_username = (\<lambda>_. js ''Bob'')\<rparr>"


definition env_no_connect :: env where
  "env_no_connect = env_ok\<lparr>createBot_throws := (\<lambda>_. Some (Error_obj (js ''bad version'')))\<rparr>"

text \<open>
  The request of the end-to-end scenario: id \<^verbatim>\<open>c1\<close>, user \<^verbatim>\<open>Bob\<close>, address
  \<^verbatim>\<open>host:25566\<close>, version \<^verbatim>\<open>1.20.1\<close>; a second request for id \<^verbatim>\<open>c2\<close>; and the state
  after socket 7 has sent the first.
\<close>

definition connect_c1 :: request where
  "connect_c1 = Connect_bot (js ''c1'') (js ''Bob'') (js ''host:25566'') (js ''1.20.1'')"

definition connect_c2 :: request where
  "connect_c2 = Connect_bot (js ''c2'') (js ''Eve'') (js ''host'') (js ''1.20.1'')"

definition options_c1 :: bot_options where
  "options_c1 = \<lparr>opt_host = js ''host'', opt_port = ParseInt (js ''25566''),
                 opt_username = js ''Bob'', opt_version = js ''1.20.1'',
                 opt_auth = js ''offline''\<rparr>"

definition closure_c1 :: listener_closure where
  "closure_c1 = \<lparr>cl_connectionId = js ''c1'', cl_username = js ''Bob'', cl_ws = 7,
                 cl_updateInterval = 0\<rparr>"

definition live_c1 :: state where
  "live_c1 = \<lparr>activeBots = [(js ''c1'', \<lparr>bot = Some 0, connectionId = js ''c1'', ws = 7\<rparr>)],
              listeners = [(0, closure_c1)],
              intervals = [0],
              timeouts = [],
              trace = [CreateBot options_c1 0, SetInterval 0 2000],
              next_bot = 1,
              next_timer = 1\<rparr>"

text \<open>
  The options of the second request; an environment in which \<^verbatim>\<open>createBot\<close> throws
  and storage rejects; and the state after socket 7 has sent the first request twice.
\<close>

definition options_c2 :: bot_options where
  "options_c2 = \<lparr>opt_host = js ''host'', opt_port = Default_25565,
                 opt_username = js ''Eve'', opt_version = js ''1.20.1'',
                 opt_auth = js ''offline''\<rparr>"


definition reconnect_c1 :: state where
  "reconnect_c1 = run env_ok [Ws_message 7 (Frame connect_c1), Ws_message 7 (Frame connect_c1)]"

text \<open>Every connection id has at most one entry in the registry.\<close>

definition at_most_one_session :: "state \<Rightarrow> bool" where
  "at_most_one_session s \<longleftrightarrow> distinct (map fst (activeBots s))"

section \<open>The filter in the words of the specification\<close>

text \<open>
  The five conditions as the specification words them: the text does not start with
  \<^verbatim>\<open><\<close>, contains no double angle quotation mark, does not contain \<^verbatim>\<open>[Player]\<close>, has
  no occurrence of a bracketed \<^verbatim>\<open>dd:dd:dd\<close> stamp followed by \<^verbatim>\<open>[Server][Player]\<close>, and
  has a code unit that is not white space. It is compared with \<open>is_system_message\<close>,
  the condition of the source.
\<close>

definition spec_classified_system :: "js_string \<Rightarrow> bool" where
  "spec_classified_system m \<longleftrightarrow>
     \<not> (\<exists>rest. m = 0x3C # rest) \<and>
     0xBB \<notin> set m \<and>
     \<not> (\<exists>pre post. m = pre @ js ''[Player]'' @ post) \<and>
     \<not> (\<exists>pre post h1 h2 m1 m2 s1 s2.
          m = pre @ [0x5B, h1, h2, 0x3A, m1, m2, 0x3A, s1, s2, 0x5D] @ js ''[Server][Player]'' @ post \<and>
          is_digit h1 \<and> is_digit h2 \<and> is_digit m1 \<and> is_digit m2 \<and> is_digit s1 \<and> is_digit s2) \<and>
     (\<exists>c \<in> set m. \<not> is_js_whitespace c)"

section \<open>Lemmas on strings\<close>

lemma startsWith_iff: "startsWith s p \<longleftrightarrow> (\<exists>rest. s = p @ rest)"
  by (induction s p rule: startsWith.induct) auto

lemma includes_js_iff: "includes_js s p \<longleftrightarrow> (\<exists>pre post. s = pre @ p @ post)"
proof (induction s)
  case Nil
  show ?case by (simp add: startsWith_iff)
next
  case (Cons c cs)
  show ?case
  proof
    assume "includes_js (c # cs) p"
    then consider "startsWith (c # cs) p" | "includes_js cs p" by auto
    then show "\<exists>pre post. c # cs = pre @ p @ post"
    proof cases
      case 1
      then obtain rest where "c # cs = p @ rest" by (auto simp: startsWith_iff)
      then have "c # cs = [] @ p @ rest" by simp
      then show ?thesis by blast
    next
      case 2
      then obtain pre post where "cs = pre @ p @ post" using Cons.IH by blast
      then have "c # cs = (c # pre) @ p @ post" by simp
      then show ?thesis by blast
    qed
  next
    assume "\<exists>pre post. c # cs = pre @ p @ post"
    then obtain pre post where eq: "c # cs = pre @ p @ post" by blast
    show "includes_js (c # cs) p"
    proof (cases pre)
      case Nil
      with eq have "startsWith (c # cs) p" by (auto simp: startsWith_iff)
      then show ?thesis by simp
    next
      case (Cons x pre')
      with eq have "cs = pre' @ p @ post" by simp
      then have "includes_js cs p" using Cons.IH by blast
      then show ?thesis by simp
    qed
  qed
qed

lemma includes_js_single: "includes_js s [x] \<longleftrightarrow> x \<in> set s"
  by (induction s) auto

lemma timestamp_here_iff:
  "timestamp_here s \<longleftrightarrow>
     (\<exists>post h1 h2 m1 m2 s1 s2.
        s = [0x5B, h1, h2, 0x3A, m1, m2, 0x3A, s1, s2, 0x5D] @ js ''[Server][Player]'' @ post \<and>
        is_digit h1 \<and> is_digit h2 \<and> is_digit m1 \<and> is_digit m2 \<and> is_digit s1 \<and> is_digit s2)"
  unfolding timestamp_here_def
  by (auto simp: startsWith_iff split: list.splits)

lemma matches_timestamp_iff:
  "matches_timestamp s \<longleftrightarrow> (\<exists>pre t. s = pre @ t \<and> timestamp_here t)"
proof (induction s)
  case Nil
  show ?case by (simp add: timestamp_here_def)
next
  case (Cons c cs)
  show ?case
  proof
    assume "matches_timestamp (c # cs)"
    then consider "timestamp_here (c # cs)" | "matches_timestamp cs" by auto
    then show "\<exists>pre t. c # cs = pre @ t \<and> timestamp_here t"
    proof cases
      case 1
      then have "c # cs = [] @ (c # cs) \<and> timestamp_here (c # cs)" by simp
      then show ?thesis by blast
    next
      case 2
      then obtain pre t where "cs = pre @ t" "timestamp_here t" using Cons.IH by blast
      then have "c # cs = (c # pre) @ t \<and> timestamp_here t" by simp
      then show ?thesis by blast
    qed
  next
    assume "\<exists>pre t. c # cs = pre @ t \<and> timestamp_here t"
    then obtain pre t where eq: "c # cs = pre @ t" and t: "timestamp_here t" by blast
    show "matches_timestamp (c # cs)"
    proof (cases pre)
      case Nil
      with eq t have "timestamp_here (c # cs)" by simp
      then show ?thesis by simp
    next
      case (Cons x pre')
      with eq have "cs = pre' @ t" by simp
      with t have "matches_timestamp cs" using Cons.IH by blast
      then show ?thesis by simp
    qed
  qed
qed

lemma trim_empty_iff: "trim s = [] \<longleftrightarrow> (\<forall>c \<in> set s. is_js_whitespace c)"
proof
  assume "trim s = []"
  then have all: "\<forall>c \<in> set (dropWhile is_js_whitespace s). is_js_whitespace c"
    by (simp add: trim_def dropWhile_eq_Nil_conv)
  have "dropWhile is_js_whitespace s = []"
  proof (cases "dropWhile is_js_whitespace s")
    case Nil
    then show ?thesis .
  next
    case (Cons x xs)
    then have "\<not> is_js_whitespace x" using hd_dropWhile [of is_js_whitespace s] by auto
    with Cons all show ?thesis by auto
  qed
  then show "\<forall>c \<in> set s. is_js_whitespace c" by (simp add: dropWhile_eq_Nil_conv)
next
  assume "\<forall>c \<in> set s. is_js_whitespace c"
  then have e: "dropWhile is_js_whitespace s = []" by (simp add: dropWhile_eq_Nil_conv)
  show "trim s = []" unfolding trim_def e by simp
qed

lemma is_system_message_iff_spec: "is_system_message m \<longleftrightarrow> spec_classified_system m"
proof -
  have ne: "(\<exists>c \<in> set m. \<not> is_js_whitespace c) \<Longrightarrow> m \<noteq> []" by auto
  have ts: "matches_timestamp m \<longleftrightarrow>
      (\<exists>pre post h1 h2 m1 m2 s1 s2.
          m = pre @ [0x5B, h1, h2, 0x3A, m1, m2, 0x3A, s1, s2, 0x5D] @ js ''[Server][Player]'' @ post \<and>
          is_digit h1 \<and> is_digit h2 \<and> is_digit m1 \<and> is_digit m2 \<and> is_digit s1 \<and> is_digit s2)"
    unfolding matches_timestamp_iff timestamp_here_iff by blast
  have st: "startsWith m [0x3C] \<longleftrightarrow> (\<exists>rest. m = 0x3C # rest)"
    by (simp add: startsWith_iff)
  have gl: "includes_js m [0xBB] \<longleftrightarrow> 0xBB \<in> set m"
    by (rule includes_js_single)
  have pl: "includes_js m (js ''[Player]'') \<longleftrightarrow> (\<exists>pre post. m = pre @ js ''[Player]'' @ post)"
    by (rule includes_js_iff)
  have tr: "trim m \<noteq> [] \<longleftrightarrow> (\<exists>c \<in> set m. \<not> is_js_whitespace c)"
    by (simp add: trim_empty_iff)
  show ?thesis
    unfolding is_system_message_def spec_classified_system_def ts st gl pl tr
    using ne by blast
qed

section \<open>Lemmas on handlers\<close>

lemmas primitive_defs =
  perform_def skip_def ws_send_def await_storage_def map_delete_def clearInterval_def
  quit_if_bot_def setTimeout_def

lemma new_effects_append: "trace s' = trace s @ es \<Longrightarrow> new_effects s s' = es"
  by (simp add: new_effects_def)

lemma new_effects_same: "new_effects s s = []"
  by (simp add: new_effects_def)

lemma createBot_options_c1:
  "createBot_options (js ''Bob'') (js ''host:25566'') (js ''1.20.1'') = options_c1"
  by (simp add: createBot_options_def options_c1_def js_def)

lemma run_connect_c1: "run env_ok [Ws_message 7 (Frame connect_c1)] = live_c1"
  by (simp add: run_def init_def ws_on_message_def connect_c1_def handleBotConnect_def env_ok_def
      createBot_options_c1 live_c1_def closure_c1_def)

lemma live_c1_lookup:
  "map_of (activeBots live_c1) (js ''c1'') = Some \<lparr>bot = Some 0, connectionId = js ''c1'', ws = 7\<rparr>"
  by (simp add: live_c1_def)

lemma live_c1_listener: "map_of (listeners live_c1) 0 = Some closure_c1"
  by (simp add: live_c1_def)

lemma store_and_relay_trace:
  "trace (snd (store_and_relay E cl uname text ty s)) =
     trace s @ Storage (CreateChatMessage (cl_connectionId cl) uname text ty False) #
       (if storage_rejects E (CreateChatMessage (cl_connectionId cl) uname text ty False) = None
        then [WsSend (cl_ws cl) (Chat_message (cl_connectionId cl) uname text ty False)] else [])"
  by (simp add: store_and_relay_def primitive_defs split: option.splits)

lemma store_and_relay_ok:
  "storage_rejects E (CreateChatMessage (cl_connectionId cl) uname text ty False) = None \<Longrightarrow>
   store_and_relay E cl uname text ty s =
     (Returned, s\<lparr>trace := trace s @
        [Storage (CreateChatMessage (cl_connectionId cl) uname text ty False),
         WsSend (cl_ws cl) (Chat_message (cl_connectionId cl) uname text ty False)]\<rparr>)"
  by (simp add: store_and_relay_def primitive_defs)

lemma on_message_classified:
  "(Storage (CreateChatMessage (cl_connectionId cl) (js ''Server'') message System_type False)
      \<in> set (new_effects s (snd (on_message E cl message s))))
   = spec_classified_system message"
proof (cases "is_system_message message")
  case True
  then have "new_effects s (snd (on_message E cl message s)) =
     Storage (CreateChatMessage (cl_connectionId cl) (js ''Server'') message System_type False) #
       (if storage_rejects E (CreateChatMessage (cl_connectionId cl) (js ''Server'') message System_type False) = None
        then [WsSend (cl_ws cl) (Chat_message (cl_connectionId cl) (js ''Server'') message System_type False)] else [])"
    by (intro new_effects_append) (simp add: on_message_def store_and_relay_trace)
  with True show ?thesis by (simp add: is_system_message_iff_spec)
next
  case False
  then show ?thesis by (simp add: on_message_def skip_def new_effects_same is_system_message_iff_spec)
qed

lemma on_message_system:
  "spec_classified_system message \<Longrightarrow>
   storage_rejects E (CreateChatMessage (cl_connectionId cl) (js ''Server'') message System_type False) = None \<Longrightarrow>
   on_message E cl message s =
     (Returned, s\<lparr>trace := trace s @
        [Storage (CreateChatMessage (cl_connectionId cl) (js ''Server'') message System_type False),
         WsSend (cl_ws cl) (Chat_message (cl_connectionId cl) (js ''Server'') message System_type False)]\<rparr>)"
  by (simp add: on_message_def store_and_relay_ok is_system_message_iff_spec)

lemma on_message_not_system:
  "\<not> spec_classified_system message \<Longrightarrow> on_message E cl message s = (Returned, s)"
  by (simp add: on_message_def skip_def is_system_message_iff_spec)

lemma filter_examples:
  "\<not> is_system_message (js ''<Alice> hi'')"
  "\<not> is_system_message (js ''Server '' @ [0xBB] @ js '' restart'')"
  "\<not> is_system_message (js ''[Player] moved'')"
  "\<not> is_system_message (js ''[12:00:00][Server][Player] x'')"
  "\<not> is_system_message (js '''')"
  "is_system_message (js ''Server restarting in 5 minutes'')"
  by (simp_all add: is_system_message_def js_def trim_def is_js_whitespace_def timestamp_here_def)

lemma createBot_options_c2:
  "createBot_options (js ''Eve'') (js ''host'') (js ''1.20.1'') = options_c2"
  by (simp add: createBot_options_def options_c2_def js_def)

lemma c1_neq_c2: "js ''c1'' \<noteq> js ''c2''" "js ''c2'' \<noteq> js ''c1''"
  by (simp_all add: js_def)



lemma env_ok_fields:
  "mineflayer env_ok" "createBot_throws env_ok opts = None" "storage_rejects env_ok c = None"
  "bot_username env_ok b = js ''Bob''"
  by (simp_all add: env_ok_def)


lemma env_no_connect_fields:
  "mineflayer env_no_connect"
  "createBot_throws env_no_connect opts = Some (Error_obj (js ''bad version''))"
  "storage_rejects env_no_connect c = None"
  by (simp_all add: env_no_connect_def env_ok_def)


lemma in_order_preserves:
  assumes "\<And>f s. f \<in> set fs \<Longrightarrow> P s \<Longrightarrow> P (snd (f s))" and "P s"
  shows "P (snd (in_order fs s))"
  using assms
proof (induction fs arbitrary: s)
  case Nil
  then show ?case by simp
next
  case (Cons f fs)
  have step: "P (snd (f s))" using Cons.prems by simp
  show ?case
  proof (cases "f s")
    case (Pair r s')
    with step have P': "P s'" by simp
    show ?thesis
    proof (cases r)
      case Returned
      have "P (snd (in_order fs s'))"
        using Cons.IH [of s'] Cons.prems(1) P' by simp
      with Pair Returned show ?thesis by simp
    next
      case (Rejected x)
      with Pair P' show ?thesis by simp
    qed
  qed
qed

lemma run_snoc: "run E (inputs @ [i]) = step E (run E inputs) i"
  by (simp add: run_def)

lemma handleBotConnect_created:
  assumes "mineflayer E" and "createBot_throws E (createBot_options uname serverIp version) = None"
  shows "handleBotConnect E sock cid uname serverIp version s =
     (Returned,
      s\<lparr>activeBots :=
           AList.update cid \<lparr>bot = Some (next_bot s), connectionId = cid, ws = sock\<rparr> (activeBots s),
         listeners :=
           AList.update (next_bot s) \<lparr>cl_connectionId = cid, cl_username = uname, cl_ws = sock,
                           cl_updateInterval = next_timer s\<rparr> (listeners s),
         intervals := intervals s @ [next_timer s],
         trace := trace s @
           [CreateBot (createBot_options uname serverIp version) (next_bot s),
            SetInterval (next_timer s) 2000],
         next_bot := Suc (next_bot s),
         next_timer := Suc (next_timer s)\<rparr>)"
  using assms by (simp add: handleBotConnect_def Let_def)

lemma handleBotConnect_threw:
  assumes "mineflayer E" and "createBot_throws E (createBot_options uname serverIp version) = Some x"
  shows "activeBots (snd (handleBotConnect E sock cid uname serverIp version s)) = activeBots s"
    and "trace (snd (handleBotConnect E sock cid uname serverIp version s)) =
      trace s @
      Storage (CreateBotLog cid Error_level
         (js ''Failed to connect: '' @ (case x of Error_obj m \<Rightarrow> m | Other_value \<Rightarrow> js ''Unknown error''))) #
      (if storage_rejects E (CreateBotLog cid Error_level
         (js ''Failed to connect: '' @ (case x of Error_obj m \<Rightarrow> m | Other_value \<Rightarrow> js ''Unknown error''))) = None
       then [WsSend sock (Connection_error
              (case x of Error_obj m \<Rightarrow> m | Other_value \<Rightarrow> js ''Failed to connect to server''))]
       else [])"
  using assms by (simp_all add: handleBotConnect_def primitive_defs split: option.splits)

lemma on_login_activeBots: "activeBots (snd (on_login E cl entity s)) = activeBots s"
  unfolding on_login_def
  by (rule in_order_preserves [where P = "\<lambda>s'. activeBots s' = activeBots s"])
     (auto simp: primitive_defs split: option.splits)

lemma run_error_before_login:
  "run env_ok [Ws_message 7 (Frame connect_c1), Bot_event 0 (Error_event (js ''connect ECONNREFUSED''))]
   = live_c1\<lparr>trace := trace live_c1 @
       [Storage (CreateBotLog (js ''c1'') Error_level (js ''Bot error: connect ECONNREFUSED'')),
        WsSend 7 (Bot_error (js ''connect ECONNREFUSED''))]\<rparr>"
proof -
  have "run env_ok ([Ws_message 7 (Frame connect_c1)] @ [Bot_event 0 (Error_event (js ''connect ECONNREFUSED''))])
     = step env_ok live_c1 (Bot_event 0 (Error_event (js ''connect ECONNREFUSED'')))"
    by (simp only: run_snoc run_connect_c1)
  also have "\<dots> = live_c1\<lparr>trace := trace live_c1 @
       [Storage (CreateBotLog (js ''c1'') Error_level (js ''Bot error: connect ECONNREFUSED'')),
        WsSend 7 (Bot_error (js ''connect ECONNREFUSED''))]\<rparr>"
    by (simp add: bot_emit_def live_c1_listener on_error_def primitive_defs env_ok_def closure_c1_def js_def)
  finally show ?thesis by simp
qed









section \<open>The registry holds one entry per id\<close>

lemma primitives_keep_registry:
  "activeBots (snd (perform e s)) = activeBots s"
  "activeBots (snd (skip s)) = activeBots s"
  "activeBots (snd (ws_send sock fr s)) = activeBots s"
  "activeBots (snd (await_storage E c s)) = activeBots s"
  "activeBots (snd (clearInterval t s)) = activeBots s"
  "activeBots (snd (quit_if_bot bi s)) = activeBots s"
  "activeBots (snd (setTimeout cb d s)) = activeBots s"
  by (simp_all add: primitive_defs split: option.splits)

lemma primitives_keep_invariant:
  "at_most_one_session s \<Longrightarrow> at_most_one_session (snd (perform e s))"
  "at_most_one_session s \<Longrightarrow> at_most_one_session (snd (skip s))"
  "at_most_one_session s \<Longrightarrow> at_most_one_session (snd (ws_send sock fr s))"
  "at_most_one_session s \<Longrightarrow> at_most_one_session (snd (await_storage E c s))"
  "at_most_one_session s \<Longrightarrow> at_most_one_session (snd (clearInterval t s))"
  "at_most_one_session s \<Longrightarrow> at_most_one_session (snd (quit_if_bot bi s))"
  "at_most_one_session s \<Longrightarrow> at_most_one_session (snd (setTimeout cb d s))"
  "at_most_one_session s \<Longrightarrow> at_most_one_session (snd (map_delete cid s))"
  by (simp_all add: at_most_one_session_def primitives_keep_registry)
     (simp add: map_delete_def distinct_delete)

lemma in_order_invariant:
  assumes "\<And>f s. f \<in> set fs \<Longrightarrow> at_most_one_session s \<Longrightarrow> at_most_one_session (snd (f s))"
    and "at_most_one_session s"
  shows "at_most_one_session (snd (in_order fs s))"
  using assms by (rule in_order_preserves)

lemma store_and_relay_invariant:
  "at_most_one_session s \<Longrightarrow> at_most_one_session (snd (store_and_relay E cl u t ty s))"
  unfolding store_and_relay_def
  by (rule in_order_invariant) (auto simp: primitives_keep_invariant)

lemma run_listeners_invariant:
  "at_most_one_session s \<Longrightarrow> at_most_one_session (run_listeners E b cl ev s)"
proof (cases ev)
  case (Login entity)
  assume "at_most_one_session s"
  then have "at_most_one_session (snd (on_login E cl entity s))"
    unfolding on_login_def
    by (rule in_order_invariant [rotated]) (auto simp: primitives_keep_invariant split: option.splits)
  with Login show ?thesis by simp
next
  case (Error_event m)
  assume "at_most_one_session s"
  then have "at_most_one_session (snd (on_error E cl m s))"
    unfolding on_error_def
    by (rule in_order_invariant [rotated]) (auto simp: primitives_keep_invariant)
  with Error_event show ?thesis by simp
next
  case End
  assume "at_most_one_session s"
  then have "at_most_one_session (snd (on_end E cl s))"
    unfolding on_end_def
    by (rule in_order_invariant [rotated]) (auto simp: primitives_keep_invariant)
  then have "at_most_one_session (snd (on_end_cleanup cl (snd (on_end E cl s))))"
    by (simp add: on_end_cleanup_def primitives_keep_invariant)
  with End show ?thesis by simp
qed (simp_all add: on_chat_def on_message_def on_playerJoined_def on_playerLeft_def on_death_def
       store_and_relay_invariant primitives_keep_invariant)

lemma handleBotConnect_invariant:
  assumes "at_most_one_session s"
  shows "at_most_one_session (snd (handleBotConnect E sock cid uname serverIp version s))"
proof (cases "mineflayer E")
  case False
  with assms show ?thesis by (simp add: handleBotConnect_def primitives_keep_invariant)
next
  case True
  show ?thesis
  proof (cases "createBot_throws E (createBot_options uname serverIp version)")
    case None
    with assms show ?thesis
      by (simp add: handleBotConnect_created [OF True None] at_most_one_session_def distinct_update)
  next
    case (Some x)
    with assms show ?thesis
      by (simp add: handleBotConnect_threw(1) [OF True Some] at_most_one_session_def)
  qed
qed

lemma handleWebSocketMessage_invariant:
  assumes "at_most_one_session s"
  shows "at_most_one_session (snd (handleWebSocketMessage E sock message s))"
proof (cases message)
  case (Connect_bot cid uname serverIp version)
  with assms show ?thesis by (simp add: handleBotConnect_invariant)
next
  case (Disconnect_bot cid)
  have "at_most_one_session (snd (handleBotDisconnect E sock cid s))"
  proof (cases "map_of (activeBots s) cid")
    case None
    with assms show ?thesis by (simp add: handleBotDisconnect_def)
  next
    case (Some bi)
    have "at_most_one_session (snd (in_order
            [quit_if_bot bi, map_delete cid,
             await_storage E (UpdateBotConnection cid (IsConnected False))] s))"
      using assms by (rule in_order_invariant [rotated]) (auto simp: primitives_keep_invariant)
    with Some show ?thesis by (simp add: handleBotDisconnect_def)
  qed
  with Disconnect_bot show ?thesis by simp
next
  case (Send_chat cid line)
  have "at_most_one_session (snd (handleSendChat E sock cid line s))"
  proof (cases "map_of (activeBots s) cid")
    case None
    with assms show ?thesis by (simp add: handleSendChat_def)
  next
    case (Some bi)
    show ?thesis
    proof (cases "bot bi")
      case None
      with Some assms show ?thesis by (simp add: handleSendChat_def)
    next
      case (Some b)
      have "at_most_one_session (snd (in_order
                 [perform (Adapter b (Chat line)),
                  await_storage E
                    (CreateChatMessage cid (bot_username E b) line Chat_type False),
                  await_storage E (CreateBotLog cid Info (js ''Sent chat: '' @ line))] s))"
        using assms by (rule in_order_invariant [rotated]) (auto simp: primitives_keep_invariant)
      with Some \<open>map_of (activeBots s) cid = Some bi\<close> show ?thesis
        by (simp add: handleSendChat_def)
    qed
  qed
  with Send_chat show ?thesis by simp
next
  case (Send_command cid line)
  have "at_most_one_session (snd (handleSendCommand E sock cid line s))"
  proof (cases "map_of (activeBots s) cid")
    case None
    with assms show ?thesis by (simp add: handleSendCommand_def)
  next
    case (Some bi)
    show ?thesis
    proof (cases "bot bi")
      case None
      with Some assms show ?thesis by (simp add: handleSendCommand_def)
    next
      case (Some b)
      have "at_most_one_session (snd (in_order
                 [perform (Adapter b (Chat line)),
                  await_storage E
                    (CreateChatMessage cid (bot_username E b) line Console_type True),
                  await_storage E (CreateBotLog cid Info (js ''Executed command: '' @ line))] s))"
        using assms by (rule in_order_invariant [rotated]) (auto simp: primitives_keep_invariant)
      with Some \<open>map_of (activeBots s) cid = Some bi\<close> show ?thesis
        by (simp add: handleSendCommand_def)
    qed
  qed
  with Send_command show ?thesis by simp
next
  case (Move_bot cid direction action)
  have "activeBots (snd (handleBotMovement sock cid direction action s)) = activeBots s"
    by (simp add: handleBotMovement_def primitive_defs split: option.splits)
  with assms Move_bot show ?thesis by (simp add: at_most_one_session_def)
next
  case (Other_type ty)
  with assms show ?thesis by (simp add: primitives_keep_invariant)
qed

lemma ws_on_message_invariant:
  assumes "at_most_one_session s"
  shows "at_most_one_session (ws_on_message E sock data s)"
proof (cases data)
  case Unparseable
  with assms show ?thesis by (simp add: ws_on_message_def primitives_keep_invariant)
next
  case (Frame message)
  have inv: "at_most_one_session (snd (handleWebSocketMessage E sock message s))"
    using assms by (rule handleWebSocketMessage_invariant)
  show ?thesis
  proof (cases "handleWebSocketMessage E sock message s")
    case (Pair r s')
    with inv have "at_most_one_session s'" by simp
    with Pair Frame show ?thesis
      by (cases r) (simp_all add: ws_on_message_def primitives_keep_invariant)
  qed
qed

lemma close_loop_invariant:
  "at_most_one_session s \<Longrightarrow> at_most_one_session (close_loop sock entries s)"
proof (induction entries)
  case Nil
  then show ?case by simp
next
  case (Cons entry entries)
  obtain cid bi where entry: "entry = (cid, bi)" by (cases entry)
  have "at_most_one_session (snd (in_order [quit_if_bot bi, map_delete cid] s))"
    using Cons.prems by (rule in_order_invariant [rotated]) (auto simp: primitives_keep_invariant)
  with Cons entry show ?case by simp
qed

lemma admin_delete_invariant:
  assumes "at_most_one_session s"
  shows "at_most_one_session (admin_delete E cid ws_open s)"
proof -
  define r where "r = (case map_of (activeBots s) cid of
              Some botInstance \<Rightarrow>
                in_order
                  [quit_if_bot botInstance,
                   map_delete cid,
                   await_storage E (UpdateBotConnection cid (IsConnected False)),
                   (if ws_open then ws_send (ws botInstance) (Bot_disconnected cid) else skip)] s
            | None \<Rightarrow> (Returned, s))"
  have "at_most_one_session (snd r)"
  proof (cases "map_of (activeBots s) cid")
    case None
    with assms show ?thesis by (simp add: r_def)
  next
    case (Some bi)
    have "at_most_one_session (snd (in_order
                  [quit_if_bot bi,
                   map_delete cid,
                   await_storage E (UpdateBotConnection cid (IsConnected False)),
                   (if ws_open then ws_send (ws bi) (Bot_disconnected cid) else skip)] s))"
      using assms by (rule in_order_invariant [rotated]) (auto simp: primitives_keep_invariant)
    with Some show ?thesis by (simp add: r_def)
  qed
  moreover have "admin_delete E cid ws_open s =
      (case r of (Returned, s') \<Rightarrow> snd (perform (HttpResponse 200) s')
               | (Rejected x, s') \<Rightarrow> snd (perform (HttpResponse 500) s'))"
    by (simp add: admin_delete_def r_def)
  ultimately show ?thesis
    by (cases r; cases "fst r") (auto simp: primitives_keep_invariant)
qed

lemma step_invariant:
  assumes "at_most_one_session s"
  shows "at_most_one_session (step E s i)"
proof (cases i)
  case (Ws_message sock data)
  with assms show ?thesis by (simp add: ws_on_message_invariant)
next
  case (Ws_close sock)
  with assms show ?thesis by (simp add: ws_on_close_def close_loop_invariant)
next
  case (Bot_event b ev)
  with assms show ?thesis by (simp add: bot_emit_def run_listeners_invariant split: option.splits)
next
  case (Interval_tick b bot_player ws_open entity)
  have "activeBots (snd (on_interval cl bot_player ws_open entity s)) = activeBots s" for cl
    unfolding on_interval_def
    by (auto simp: primitive_defs Let_def split: option.splits player.splits)
  with assms Interval_tick show ?thesis
    by (simp add: interval_tick_def at_most_one_session_def split: option.splits)
next
  case Timeout_elapsed
  with assms show ?thesis
    by (simp add: timeout_elapsed_def at_most_one_session_def perform_def
        split: list.splits callback.splits)
next
  case (Admin_delete cid ws_open)
  with assms show ?thesis by (simp add: admin_delete_invariant)
qed

lemma foldl_step_invariant:
  "at_most_one_session s \<Longrightarrow> at_most_one_session (foldl (step E) s inputs)"
  by (induction inputs arbitrary: s) (simp_all add: step_invariant)

lemma run_invariant: "at_most_one_session (run E inputs)"
  unfolding run_def by (rule foldl_step_invariant) (simp add: at_most_one_session_def init_def)

lemma live_c1_invariant: "at_most_one_session live_c1"
  by (simp add: at_most_one_session_def live_c1_def)

lemma reconnect_c1_step: "reconnect_c1 = ws_on_message env_ok 7 (Frame connect_c1) live_c1"
proof -
  have "run env_ok ([Ws_message 7 (Frame connect_c1)] @ [Ws_message 7 (Frame connect_c1)])
      = step env_ok live_c1 (Ws_message 7 (Frame connect_c1))"
    by (simp only: run_snoc run_connect_c1)
  then show ?thesis by (simp add: reconnect_c1_def)
qed

lemma reconnect_c1_eq:
  "reconnect_c1 =
     \<lparr>activeBots = [(js ''c1'', \<lparr>bot = Some 1, connectionId = js ''c1'', ws = 7\<rparr>)],
      listeners = [(0, closure_c1), (1, closure_c1\<lparr>cl_updateInterval := 1\<rparr>)],
      intervals = [0, 1],
      timeouts = [],
      trace = [CreateBot options_c1 0, SetInterval 0 2000, CreateBot options_c1 1, SetInterval 1 2000],
      next_bot = 2,
      next_timer = 2\<rparr>"
  unfolding reconnect_c1_step
  by (simp add: ws_on_message_def connect_c1_def handleBotConnect_def env_ok_def
      createBot_options_c1 live_c1_def closure_c1_def numeral_2_eq_2)

lemma run_two_sessions:
  "run env_ok [Ws_message 7 (Frame connect_c1), Ws_message 7 (Frame connect_c2)] =
     \<lparr>activeBots = [(js ''c1'', \<lparr>bot = Some 0, connectionId = js ''c1'', ws = 7\<rparr>),
                    (js ''c2'', \<lparr>bot = Some 1, connectionId = js ''c2'', ws = 7\<rparr>)],
      listeners = [(0, closure_c1),
                   (1, \<lparr>cl_connectionId = js ''c2'', cl_username = js ''Eve'', cl_ws = 7,
                        cl_updateInterval = 1\<rparr>)],
      intervals = [0, 1],
      timeouts = [],
      trace = [CreateBot options_c1 0, SetInterval 0 2000, CreateBot options_c2 1, SetInterval 1 2000],
      next_bot = 2,
      next_timer = 2\<rparr>"
proof -
  have "run env_ok ([Ws_message 7 (Frame connect_c1)] @ [Ws_message 7 (Frame connect_c2)])
      = step env_ok live_c1 (Ws_message 7 (Frame connect_c2))"
    by (simp only: run_snoc run_connect_c1)
  also have "\<dots> = \<lparr>activeBots = [(js ''c1'', \<lparr>bot = Some 0, connectionId = js ''c1'', ws = 7\<rparr>),
                    (js ''c2'', \<lparr>bot = Some 1, connectionId = js ''c2'', ws = 7\<rparr>)],
      listeners = [(0, closure_c1),
                   (1, \<lparr>cl_connectionId = js ''c2'', cl_username = js ''Eve'', cl_ws = 7,
                        cl_updateInterval = 1\<rparr>)],
      intervals = [0, 1],
      timeouts = [],
      trace = [CreateBot options_c1 0, SetInterval 0 2000, CreateBot options_c2 1, SetInterval 1 2000],
      next_bot = 2,
      next_timer = 2\<rparr>"
    by (simp add: ws_on_message_def connect_c2_def handleBotConnect_def env_ok_def
        createBot_options_c2 live_c1_def closure_c1_def c1_neq_c2 numeral_2_eq_2)
  finally show ?thesis by simp
qed

section \<open>Connecting\<close>

text \<open>
  Claim C1, as stated, fails. After the connect request alone, with no login event, the
  session is in the registry. When the adapter then reports a connection failure by its
  \<^verbatim>\<open>'error'\<close> event, the session is still there, and the frame sent is \<^verbatim>\<open>bot_error\<close>.
\<close>

theorem session_registered_before_login_counterexample:
  "map_of (activeBots (run env_ok [Ws_message 7 (Frame connect_c1)])) (js ''c1'')
     = Some \<lparr>bot = Some 0, connectionId = js ''c1'', ws = 7\<rparr>
   \<and> map_of (activeBots (run env_ok [Ws_message 7 (Frame connect_c1),
                                      Bot_event 0 (Error_event (js ''connect ECONNREFUSED''))]))
        (js ''c1'')
     = Some \<lparr>bot = Some 0, connectionId = js ''c1'', ws = 7\<rparr>
   \<and> trace (run env_ok [Ws_message 7 (Frame connect_c1),
                        Bot_event 0 (Error_event (js ''connect ECONNREFUSED''))])
     = [CreateBot options_c1 0, SetInterval 0 2000,
        Storage (CreateBotLog (js ''c1'') Error_level (js ''Bot error: connect ECONNREFUSED'')),
        WsSend 7 (Bot_error (js ''connect ECONNREFUSED''))]"
  unfolding run_connect_c1 run_error_before_login
  by (simp add: live_c1_def)

text \<open>
  Claim C1, amended. With the module loaded, a connect request whose \<^verbatim>\<open>createBot\<close> call
  returns registers the session under the connection id in the request handler itself,
  and its only effects are the creation of the bot and the start of the interval. A
  request whose \<^verbatim>\<open>createBot\<close> call throws leaves the registry as it was: an error log
  entry is submitted to storage and, when storage accepts it, a \<^verbatim>\<open>connection_error\<close>
  frame follows. The login event leaves the registry as it is.
\<close>

theorem session_registered_when_bot_created:
  assumes "mineflayer E"
  shows "(createBot_throws E (createBot_options uname serverIp version) = None \<longrightarrow>
            map_of (activeBots (snd (handleBotConnect E sock cid uname serverIp version s))) cid
              = Some \<lparr>bot = Some (next_bot s), connectionId = cid, ws = sock\<rparr> \<and>
            new_effects s (snd (handleBotConnect E sock cid uname serverIp version s))
              = [CreateBot (createBot_options uname serverIp version) (next_bot s),
                 SetInterval (next_timer s) 2000])
       \<and> (createBot_throws E (createBot_options uname serverIp version) = Some (Error_obj m) \<longrightarrow>
            activeBots (snd (handleBotConnect E sock cid uname serverIp version s)) = activeBots s \<and>
            new_effects s (snd (handleBotConnect E sock cid uname serverIp version s))
              = Storage (CreateBotLog cid Error_level (js ''Failed to connect: '' @ m)) #
                (if storage_rejects E (CreateBotLog cid Error_level (js ''Failed to connect: '' @ m)) = None
                 then [WsSend sock (Connection_error m)] else []))
       \<and> (createBot_throws E (createBot_options uname serverIp version) = Some Other_value \<longrightarrow>
            activeBots (snd (handleBotConnect E sock cid uname serverIp version s)) = activeBots s \<and>
            new_effects s (snd (handleBotConnect E sock cid uname serverIp version s))
              = Storage (CreateBotLog cid Error_level (js ''Failed to connect: Unknown error'')) #
                (if storage_rejects E (CreateBotLog cid Error_level (js ''Failed to connect: Unknown error'')) = None
                 then [WsSend sock (Connection_error (js ''Failed to connect to server''))] else []))
       \<and> activeBots (bot_emit E b (Login entity) s) = activeBots s"
proof (intro conjI impI)
  assume ok: "createBot_throws E (createBot_options uname serverIp version) = None"
  show "map_of (activeBots (snd (handleBotConnect E sock cid uname serverIp version s))) cid
              = Some \<lparr>bot = Some (next_bot s), connectionId = cid, ws = sock\<rparr>"
    by (simp add: handleBotConnect_created [OF assms ok] update_conv')
  show "new_effects s (snd (handleBotConnect E sock cid uname serverIp version s))
              = [CreateBot (createBot_options uname serverIp version) (next_bot s),
                 SetInterval (next_timer s) 2000]"
    by (rule new_effects_append) (simp add: handleBotConnect_created [OF assms ok])
next
  assume th: "createBot_throws E (createBot_options uname serverIp version) = Some (Error_obj m)"
  show "activeBots (snd (handleBotConnect E sock cid uname serverIp version s)) = activeBots s"
    by (rule handleBotConnect_threw(1) [OF assms th])
  show "new_effects s (snd (handleBotConnect E sock cid uname serverIp version s))
              = Storage (CreateBotLog cid Error_level (js ''Failed to connect: '' @ m)) #
                (if storage_rejects E (CreateBotLog cid Error_level (js ''Failed to connect: '' @ m)) = None
                 then [WsSend sock (Connection_error m)] else [])"
    by (rule new_effects_append) (simp add: handleBotConnect_threw(2) [OF assms th])
next
  assume th: "createBot_throws E (createBot_options uname serverIp version) = Some Other_value"
  show "activeBots (snd (handleBotConnect E sock cid uname serverIp version s)) = activeBots s"
    by (rule handleBotConnect_threw(1) [OF assms th])
  have u: "js ''Failed to connect: '' @ js ''Unknown error'' = js ''Failed to connect: Unknown error''"
    by (simp add: js_def)
  show "new_effects s (snd (handleBotConnect E sock cid uname serverIp version s))
              = Storage (CreateBotLog cid Error_level (js ''Failed to connect: Unknown error'')) #
                (if storage_rejects E (CreateBotLog cid Error_level (js ''Failed to connect: Unknown error'')) = None
                 then [WsSend sock (Connection_error (js ''Failed to connect to server''))] else [])"
    by (rule new_effects_append) (simp add: handleBotConnect_threw(2) [OF assms th] u)
next
  show "activeBots (bot_emit E b (Login entity) s) = activeBots s"
    by (simp add: bot_emit_def on_login_activeBots split: option.splits)
qed

theorem session_registered_when_bot_created_witness:
  "mineflayer env_ok
   \<and> createBot_throws env_ok (createBot_options (js ''Bob'') (js ''host:25566'') (js ''1.20.1'')) = None
   \<and> map_of (activeBots (snd (handleBotConnect env_ok 7 (js ''c1'') (js ''Bob'') (js ''host:25566'')
                                 (js ''1.20.1'') init))) (js ''c1'')
       = Some \<lparr>bot = Some (next_bot init), connectionId = js ''c1'', ws = 7\<rparr>
   \<and> mineflayer env_no_connect
   \<and> createBot_throws env_no_connect
        (createBot_options (js ''Bob'') (js ''host:25566'') (js ''1.20.1''))
       = Some (Error_obj (js ''bad version''))
   \<and> activeBots (snd (handleBotConnect env_no_connect 7 (js ''c1'') (js ''Bob'') (js ''host:25566'')
                         (js ''1.20.1'') init)) = activeBots init
   \<and> new_effects init (snd (handleBotConnect env_no_connect 7 (js ''c1'') (js ''Bob'')
                               (js ''host:25566'') (js ''1.20.1'') init))
       = [Storage (CreateBotLog (js ''c1'') Error_level (js ''Failed to connect: '' @ js ''bad version'')),
          WsSend 7 (Connection_error (js ''bad version''))]"
proof -
  note a = session_registered_when_bot_created
    [OF env_ok_fields(1), where uname = "js ''Bob''" and serverIp = "js ''host:25566''"
       and version = "js ''1.20.1''" and sock = 7 and cid = "js ''c1''" and s = init]
  note b = session_registered_when_bot_created
    [OF env_no_connect_fields(1), where uname = "js ''Bob''" and serverIp = "js ''host:25566''"
       and version = "js ''1.20.1''" and sock = 7 and cid = "js ''c1''" and s = init
       and m = "js ''bad version''"]
  have e: "(if storage_rejects env_no_connect
                 (CreateBotLog (js ''c1'') Error_level (js ''Failed to connect: '' @ js ''bad version''))
               = None
            then [WsSend 7 (Connection_error (js ''bad version''))] else [])
           = [WsSend 7 (Connection_error (js ''bad version''))]"
    by (simp add: env_no_connect_fields)
  from a b [unfolded e] env_ok_fields(1,2) env_no_connect_fields(1,2) show ?thesis
    by blast
qed

text \<open>
  Claim C2, as stated, fails. A second connect request for the live id \<^verbatim>\<open>c1\<close> puts the
  new bot in the registry; the prior bot is not quit and its interval is not cleared.
\<close>

theorem reconnect_without_teardown_counterexample:
  "map_of (activeBots live_c1) (js ''c1'') = Some \<lparr>bot = Some 0, connectionId = js ''c1'', ws = 7\<rparr>
   \<and> reconnect_c1 = ws_on_message env_ok 7 (Frame connect_c1) live_c1
   \<and> map_of (activeBots reconnect_c1) (js ''c1'')
       = Some \<lparr>bot = Some 1, connectionId = js ''c1'', ws = 7\<rparr>
   \<and> new_effects live_c1 reconnect_c1 = [CreateBot options_c1 1, SetInterval 1 2000]
   \<and> Adapter 0 Quit \<notin> set (trace reconnect_c1)
   \<and> ClearInterval 0 \<notin> set (trace reconnect_c1)
   \<and> 0 \<in> set (intervals reconnect_c1)"
proof -
  have e: "new_effects live_c1 reconnect_c1 = [CreateBot options_c1 1, SetInterval 1 2000]"
    by (rule new_effects_append) (simp add: reconnect_c1_eq live_c1_def)
  have m: "map_of (activeBots reconnect_c1) (js ''c1'')
       = Some \<lparr>bot = Some 1, connectionId = js ''c1'', ws = 7\<rparr>"
    by (simp add: reconnect_c1_eq)
  have q: "Adapter 0 Quit \<notin> set (trace reconnect_c1)"
    and c: "ClearInterval 0 \<notin> set (trace reconnect_c1)"
    and i: "0 \<in> set (intervals reconnect_c1)"
    by (simp_all add: reconnect_c1_eq)
  from live_c1_lookup reconnect_c1_step m e q c i show ?thesis by blast
qed

text \<open>
  Claim C2, amended. Each connection id has at most one entry in the registry: in the
  initial state, after every step from a state where it holds, and so in every state a
  run can reach. A connect request for an id that has an entry replaces that
  entry in place with the new session; the handler creates the bot and starts the new
  interval and does nothing else, so the prior bot is not quit and the prior interval
  keeps running.
\<close>

theorem one_session_per_id_and_reconnect_replaces:
  "at_most_one_session init
   \<and> (at_most_one_session s \<longrightarrow> at_most_one_session (step E s i))
   \<and> at_most_one_session (run E inputs)
   \<and> (mineflayer E \<and> createBot_throws E (createBot_options uname serverIp version) = None \<and>
      at_most_one_session s \<and> map_of (activeBots s) cid = Some prior \<longrightarrow>
        at_most_one_session (snd (handleBotConnect E sock cid uname serverIp version s)) \<and>
        map_of (activeBots (snd (handleBotConnect E sock cid uname serverIp version s))) cid
          = Some \<lparr>bot = Some (next_bot s), connectionId = cid, ws = sock\<rparr> \<and>
        map fst (activeBots (snd (handleBotConnect E sock cid uname serverIp version s)))
          = map fst (activeBots s) \<and>
        new_effects s (snd (handleBotConnect E sock cid uname serverIp version s))
          = [CreateBot (createBot_options uname serverIp version) (next_bot s),
             SetInterval (next_timer s) 2000] \<and>
        intervals (snd (handleBotConnect E sock cid uname serverIp version s))
          = intervals s @ [next_timer s])"
proof (intro conjI impI)
  show "at_most_one_session init" by (simp add: at_most_one_session_def init_def)
next
  assume "at_most_one_session s"
  then show "at_most_one_session (step E s i)" by (rule step_invariant)
next
  show "at_most_one_session (run E inputs)" by (rule run_invariant)
next
  assume h: "mineflayer E \<and> createBot_throws E (createBot_options uname serverIp version) = None \<and>
      at_most_one_session s \<and> map_of (activeBots s) cid = Some prior"
  then have m: "mineflayer E" and ok: "createBot_throws E (createBot_options uname serverIp version) = None"
    and inv: "at_most_one_session s" and live: "map_of (activeBots s) cid = Some prior"
    by simp_all
  note eq = handleBotConnect_created [OF m ok, of sock cid s]
  show "at_most_one_session (snd (handleBotConnect E sock cid uname serverIp version s))"
    using inv by (rule handleBotConnect_invariant)
  show "map_of (activeBots (snd (handleBotConnect E sock cid uname serverIp version s))) cid
          = Some \<lparr>bot = Some (next_bot s), connectionId = cid, ws = sock\<rparr>"
    by (simp add: eq update_conv')
  have "cid \<in> fst ` set (activeBots s)"
    using live by (metis domI dom_map_of_conv_image_fst)
  then show "map fst (activeBots (snd (handleBotConnect E sock cid uname serverIp version s)))
          = map fst (activeBots s)"
    by (simp add: eq update_keys)
  show "new_effects s (snd (handleBotConnect E sock cid uname serverIp version s))
          = [CreateBot (createBot_options uname serverIp version) (next_bot s),
             SetInterval (next_timer s) 2000]"
    by (rule new_effects_append) (simp add: eq)
  show "intervals (snd (handleBotConnect E sock cid uname serverIp version s))
          = intervals s @ [next_timer s]"
    by (simp add: eq)
qed

theorem one_session_per_id_and_reconnect_replaces_witness:
  "mineflayer env_ok
   \<and> createBot_throws env_ok (createBot_options (js ''Bob'') (js ''host:25566'') (js ''1.20.1'')) = None
   \<and> at_most_one_session live_c1
   \<and> map_of (activeBots live_c1) (js ''c1'')
       = Some \<lparr>bot = Some 0, connectionId = js ''c1'', ws = 7\<rparr>
   \<and> at_most_one_session (snd (handleBotConnect env_ok 7 (js ''c1'') (js ''Bob'') (js ''host:25566'')
                                  (js ''1.20.1'') live_c1))
   \<and> map_of (activeBots (snd (handleBotConnect env_ok 7 (js ''c1'') (js ''Bob'') (js ''host:25566'')
                                 (js ''1.20.1'') live_c1))) (js ''c1'')
       = Some \<lparr>bot = Some (next_bot live_c1), connectionId = js ''c1'', ws = 7\<rparr>
   \<and> new_effects live_c1 (snd (handleBotConnect env_ok 7 (js ''c1'') (js ''Bob'') (js ''host:25566'')
                                  (js ''1.20.1'') live_c1))
       = [CreateBot (createBot_options (js ''Bob'') (js ''host:25566'') (js ''1.20.1''))
            (next_bot live_c1),
          SetInterval (next_timer live_c1) 2000]
   \<and> at_most_one_session (step env_ok live_c1 (Ws_close 7))
   \<and> at_most_one_session (run env_ok [Ws_message 7 (Frame connect_c1), Ws_close 7])"
proof -
  note a = one_session_per_id_and_reconnect_replaces
    [where E = env_ok and uname = "js ''Bob''" and serverIp = "js ''host:25566''"
       and version = "js ''1.20.1''" and sock = 7 and cid = "js ''c1''" and s = live_c1
       and prior = "\<lparr>bot = Some 0, connectionId = js ''c1'', ws = 7\<rparr>"
       and inputs = "[Ws_message 7 (Frame connect_c1), Ws_close 7]" and i = "Ws_close 7"]
  from a live_c1_invariant live_c1_lookup env_ok_fields(1,2) show ?thesis
    by blast
qed

section \<open>The system-message filter\<close>

text \<open>
  Claim C3. The \<^verbatim>\<open>'message'\<close> listener classifies a text as system, that is, it submits
  a chat entry of type system with user name \<^verbatim>\<open>Server\<close> to storage, if and only if
  the text does not start with \<^verbatim>\<open><\<close>, contains no double angle quotation mark, does
  not contain \<^verbatim>\<open>[Player]\<close>, does not match the time-stamped
  \<^verbatim>\<open>[hh:mm:ss][Server][Player]\<close> pattern and is not empty or white space only. A
  classified text whose entry storage accepts is stored and then relayed as a
  \<^verbatim>\<open>chat_message\<close> frame; any other text leaves the state as it is. The five inputs
  \<^verbatim>\<open><Alice> hi\<close>, \<^verbatim>\<open>Server (guillemet) restart\<close>, \<^verbatim>\<open>[Player] moved\<close>,
  \<^verbatim>\<open>[12:00:00][Server][Player] x\<close> and the empty text are not classified, and
  \<^verbatim>\<open>Server restarting in 5 minutes\<close> is.
\<close>

theorem system_message_filter:
  "((Storage (CreateChatMessage (cl_connectionId cl) (js ''Server'') message System_type False)
       \<in> set (new_effects s (snd (on_message E cl message s))))
    = spec_classified_system message)
   \<and> (spec_classified_system message \<and>
      storage_rejects E (CreateChatMessage (cl_connectionId cl) (js ''Server'') message System_type False) = None \<longrightarrow>
      on_message E cl message s =
        (Returned, s\<lparr>trace := trace s @
           [Storage (CreateChatMessage (cl_connectionId cl) (js ''Server'') message System_type False),
            WsSend (cl_ws cl) (Chat_message (cl_connectionId cl) (js ''Server'') message System_type False)]\<rparr>))
   \<and> (\<not> spec_classified_system message \<longrightarrow> on_message E cl message s = (Returned, s))
   \<and> on_message E cl (js ''<Alice> hi'') s = (Returned, s)
   \<and> on_message E cl (js ''Server '' @ [0xBB] @ js '' restart'') s = (Returned, s)
   \<and> on_message E cl (js ''[Player] moved'') s = (Returned, s)
   \<and> on_message E cl (js ''[12:00:00][Server][Player] x'') s = (Returned, s)
   \<and> on_message E cl (js '''') s = (Returned, s)
   \<and> spec_classified_system (js ''Server restarting in 5 minutes'')"
proof (intro conjI impI)
  show "(Storage (CreateChatMessage (cl_connectionId cl) (js ''Server'') message System_type False)
       \<in> set (new_effects s (snd (on_message E cl message s))))
    = spec_classified_system message"
    by (rule on_message_classified)
  show "on_message E cl (js ''<Alice> hi'') s = (Returned, s)"
    using filter_examples(1) by (simp only: on_message_def skip_def if_False)
  show "on_message E cl (js ''Server '' @ [0xBB] @ js '' restart'') s = (Returned, s)"
    using filter_examples(2) by (simp only: on_message_def skip_def if_False)
  show "on_message E cl (js ''[Player] moved'') s = (Returned, s)"
    using filter_examples(3) by (simp only: on_message_def skip_def if_False)
  show "on_message E cl (js ''[12:00:00][Server][Player] x'') s = (Returned, s)"
    using filter_examples(4) by (simp only: on_message_def skip_def if_False)
  show "on_message E cl (js '''') s = (Returned, s)"
    using filter_examples(5) by (simp only: on_message_def skip_def if_False)
  show "spec_classified_system (js ''Server restarting in 5 minutes'')"
    using filter_examples(6) is_system_message_iff_spec by blast
qed (simp_all add: on_message_system on_message_not_system)

theorem system_message_filter_witness:
  "spec_classified_system (js ''Server restarting in 5 minutes'')
   \<and> storage_rejects env_ok (CreateChatMessage (cl_connectionId closure_c1) (js ''Server'')
        (js ''Server restarting in 5 minutes'') System_type False) = None
   \<and> on_message env_ok closure_c1 (js ''Server restarting in 5 minutes'') live_c1 =
       (Returned, live_c1\<lparr>trace := trace live_c1 @
          [Storage (CreateChatMessage (js ''c1'') (js ''Server'')
             (js ''Server restarting in 5 minutes'') System_type False),
           WsSend 7 (Chat_message (js ''c1'') (js ''Server'')
             (js ''Server restarting in 5 minutes'') System_type False)]\<rparr>)
   \<and> \<not> spec_classified_system (js ''[Player] moved'')
   \<and> on_message env_ok closure_c1 (js ''[Player] moved'') live_c1 = (Returned, live_c1)"
proof -
  have ok: "storage_rejects env_ok (CreateChatMessage (cl_connectionId closure_c1) (js ''Server'')
        (js ''Server restarting in 5 minutes'') System_type False) = None"
    by (simp add: env_ok_def)
  have no: "\<not> spec_classified_system (js ''[Player] moved'')"
    using filter_examples(3) is_system_message_iff_spec by blast
  have cl: "cl_connectionId closure_c1 = js ''c1''" "cl_ws closure_c1 = 7"
    by (simp_all add: closure_c1_def)
  note t1 = system_message_filter [of closure_c1 "js ''Server restarting in 5 minutes''" live_c1 env_ok]
  note t2 = system_message_filter [of closure_c1 "js ''[Player] moved''" live_c1 env_ok]
  from t1 ok t2 no show ?thesis unfolding cl by blast
qed

section \<open>Teardown\<close>

text \<open>
  Claim C4: when a control socket closes, every session owned by that socket is torn
  down. The code at the input of the claim: socket 7 connects \<^verbatim>\<open>c1\<close> and \<^verbatim>\<open>c2\<close> and then
  closes. The loop leaves at its \<^verbatim>\<open>break\<close> after the first match: only the bot of
  \<^verbatim>\<open>c1\<close> is quit, and the session of \<^verbatim>\<open>c2\<close> stays in the registry.
\<close>

theorem close_tears_down_first_session_only:
  "activeBots (run env_ok [Ws_message 7 (Frame connect_c1), Ws_message 7 (Frame connect_c2),
                           Ws_close 7])
     = [(js ''c2'', \<lparr>bot = Some 1, connectionId = js ''c2'', ws = 7\<rparr>)]
   \<and> trace (run env_ok [Ws_message 7 (Frame connect_c1), Ws_message 7 (Frame connect_c2),
                        Ws_close 7])
     = [CreateBot options_c1 0, SetInterval 0 2000, CreateBot options_c2 1, SetInterval 1 2000,
        Adapter 0 Quit]"
proof -
  have "run env_ok ([Ws_message 7 (Frame connect_c1), Ws_message 7 (Frame connect_c2)] @ [Ws_close 7])
      = ws_on_close 7 (run env_ok [Ws_message 7 (Frame connect_c1), Ws_message 7 (Frame connect_c2)])"
    by (simp only: run_snoc step.simps)
  then have "run env_ok [Ws_message 7 (Frame connect_c1), Ws_message 7 (Frame connect_c2), Ws_close 7]
      = ws_on_close 7 (run env_ok [Ws_message 7 (Frame connect_c1), Ws_message 7 (Frame connect_c2)])"
    by simp
  then show ?thesis
    unfolding run_two_sessions
    by (simp add: ws_on_close_def primitive_defs AList.delete_eq js_def)
qed






section \<open>Storage failures\<close>




section \<open>Commands\<close>

text \<open>
  Claim C8. With no entry for the connection id in the registry, send-chat,
  send-command and move are silent: each handler returns with the state unchanged (no
  frame sent, no storage call, no call on a bot), and so does the message listener of
  the socket that dispatches to it (no error frame either).
\<close>

theorem commands_without_session_do_nothing:
  assumes "map_of (activeBots s) cid = None"
  shows "handleSendChat E sock cid message s = (Returned, s)
       \<and> handleSendCommand E sock cid command s = (Returned, s)
       \<and> handleBotMovement sock cid direction action s = (Returned, s)
       \<and> ws_on_message E sock (Frame (Send_chat cid message)) s = s
       \<and> ws_on_message E sock (Frame (Send_command cid command)) s = s
       \<and> ws_on_message E sock (Frame (Move_bot cid direction action)) s = s"
  using assms
  by (simp add: handleSendChat_def handleSendCommand_def handleBotMovement_def ws_on_message_def)

theorem commands_without_session_do_nothing_witness:
  "map_of (activeBots live_c1) (js ''c9'') = None
   \<and> handleSendChat env_ok 7 (js ''c9'') (js ''hi'') live_c1 = (Returned, live_c1)
   \<and> handleSendCommand env_ok 7 (js ''c9'') (js ''/help'') live_c1 = (Returned, live_c1)
   \<and> handleBotMovement 7 (js ''c9'') (js ''forward'') (js ''start'') live_c1 = (Returned, live_c1)
   \<and> ws_on_message env_ok 7 (Frame (Send_chat (js ''c9'') (js ''hi''))) live_c1 = live_c1
   \<and> ws_on_message env_ok 7 (Frame (Send_command (js ''c9'') (js ''/help''))) live_c1 = live_c1
   \<and> ws_on_message env_ok 7 (Frame (Move_bot (js ''c9'') (js ''forward'') (js ''start''))) live_c1
       = live_c1"
proof -
  have absent: "map_of (activeBots live_c1) (js ''c9'') = None"
    by (simp add: live_c1_def js_def)
  from absent commands_without_session_do_nothing [OF absent] show ?thesis by blast
qed

text \<open>
  Claim C9. For a live session, move with direction \<^verbatim>\<open>jump\<close> and action \<^verbatim>\<open>start\<close>
  sets the jump control to true at once and queues a timeout of 100 ms whose callback
  sets it to false; when that timeout elapses the control is set to false. With action
  \<^verbatim>\<open>stop\<close> the handler returns with the state unchanged.
\<close>

theorem jump_start_pulses_and_stop_is_noop:
  assumes "map_of (activeBots s) cid = Some botInstance" and "bot botInstance = Some b"
  shows "handleBotMovement sock cid (js ''jump'') (js ''start'') s =
           (Returned,
            s\<lparr>timeouts := timeouts s @ [(100, Callback b (SetControlState (js ''jump'') False))],
              trace := trace s @
                [Adapter b (SetControlState (js ''jump'') True),
                 SetTimeout 100 (Callback b (SetControlState (js ''jump'') False))]\<rparr>)
       \<and> (timeouts s = [] \<longrightarrow>
            trace (timeout_elapsed
                     (snd (handleBotMovement sock cid (js ''jump'') (js ''start'') s))) =
              trace s @
                [Adapter b (SetControlState (js ''jump'') True),
                 SetTimeout 100 (Callback b (SetControlState (js ''jump'') False)),
                 Adapter b (SetControlState (js ''jump'') False)])
       \<and> handleBotMovement sock cid (js ''jump'') (js ''stop'') s = (Returned, s)"
  using assms
  by (simp add: handleBotMovement_def js_def perform_def setTimeout_def timeout_elapsed_def)

theorem jump_start_pulses_and_stop_is_noop_witness:
  "map_of (activeBots live_c1) (js ''c1'') =
     Some \<lparr>bot = Some 0, connectionId = js ''c1'', ws = 7\<rparr>
   \<and> timeouts live_c1 = []
   \<and> handleBotMovement 7 (js ''c1'') (js ''jump'') (js ''start'') live_c1 =
       (Returned,
        live_c1\<lparr>timeouts :=
                  timeouts live_c1 @ [(100, Callback 0 (SetControlState (js ''jump'') False))],
                trace := trace live_c1 @
                  [Adapter 0 (SetControlState (js ''jump'') True),
                   SetTimeout 100 (Callback 0 (SetControlState (js ''jump'') False))]\<rparr>)
   \<and> trace (timeout_elapsed
              (snd (handleBotMovement 7 (js ''c1'') (js ''jump'') (js ''start'') live_c1))) =
       trace live_c1 @
         [Adapter 0 (SetControlState (js ''jump'') True),
          SetTimeout 100 (Callback 0 (SetControlState (js ''jump'') False)),
          Adapter 0 (SetControlState (js ''jump'') False)]
   \<and> handleBotMovement 7 (js ''c1'') (js ''jump'') (js ''stop'') live_c1 = (Returned, live_c1)"
proof -
  have none: "timeouts live_c1 = []"
    by (simp add: live_c1_def)
  have b: "bot \<lparr>bot = Some 0, connectionId = js ''c1'', ws = 7\<rparr> = Some 0"
    by simp
  from jump_start_pulses_and_stop_is_noop [OF live_c1_lookup b, of 7] none live_c1_lookup
  show ?thesis by blast
qed

text \<open>
  Claim C10. For a live session, a move whose direction is none of \<^verbatim>\<open>forward\<close>,
  \<^verbatim>\<open>back\<close>, \<^verbatim>\<open>left\<close>, \<^verbatim>\<open>right\<close> and \<^verbatim>\<open>jump\<close> returns with the state unchanged (no
  call on the bot, nothing stored, nothing sent), also through the message listener;
  and for the four directional moves every action other than \<^verbatim>\<open>start\<close> sets the
  control of that direction to false, as its only effect.
\<close>

theorem move_other_direction_and_other_action:
  assumes "map_of (activeBots s) cid = Some botInstance" and "bot botInstance = Some b"
  shows "(direction \<notin> {js ''forward'', js ''back'', js ''left'', js ''right'', js ''jump''} \<longrightarrow>
            handleBotMovement sock cid direction action s = (Returned, s) \<and>
            ws_on_message E sock (Frame (Move_bot cid direction action)) s = s)
       \<and> (direction \<in> {js ''forward'', js ''back'', js ''left'', js ''right''} \<and>
          action \<noteq> js ''start'' \<longrightarrow>
            handleBotMovement sock cid direction action s =
              (Returned, s\<lparr>trace := trace s @ [Adapter b (SetControlState direction False)]\<rparr>))"
proof (intro conjI impI)
  assume "direction \<notin> {js ''forward'', js ''back'', js ''left'', js ''right'', js ''jump''}"
  with assms show "handleBotMovement sock cid direction action s = (Returned, s)"
    by (simp add: handleBotMovement_def)
  then show "ws_on_message E sock (Frame (Move_bot cid direction action)) s = s"
    by (simp add: ws_on_message_def)
next
  assume "direction \<in> {js ''forward'', js ''back'', js ''left'', js ''right''} \<and>
          action \<noteq> js ''start''"
  with assms show "handleBotMovement sock cid direction action s =
      (Returned, s\<lparr>trace := trace s @ [Adapter b (SetControlState direction False)]\<rparr>)"
    by (auto simp add: handleBotMovement_def perform_def)
qed

theorem move_other_direction_and_other_action_witness:
  "map_of (activeBots live_c1) (js ''c1'') =
     Some \<lparr>bot = Some 0, connectionId = js ''c1'', ws = 7\<rparr>
   \<and> js ''up'' \<notin> {js ''forward'', js ''back'', js ''left'', js ''right'', js ''jump''}
   \<and> handleBotMovement 7 (js ''c1'') (js ''up'') (js ''start'') live_c1 = (Returned, live_c1)
   \<and> ws_on_message env_ok 7 (Frame (Move_bot (js ''c1'') (js ''up'') (js ''start''))) live_c1
       = live_c1
   \<and> js ''left'' \<in> {js ''forward'', js ''back'', js ''left'', js ''right''}
   \<and> js ''halt'' \<noteq> js ''start''
   \<and> handleBotMovement 7 (js ''c1'') (js ''left'') (js ''halt'') live_c1 =
       (Returned,
        live_c1\<lparr>trace := trace live_c1 @ [Adapter 0 (SetControlState (js ''left'') False)]\<rparr>)"
proof -
  have b: "bot \<lparr>bot = Some 0, connectionId = js ''c1'', ws = 7\<rparr> = Some 0"
    by simp
  have up: "js ''up'' \<notin> {js ''forward'', js ''back'', js ''left'', js ''right'', js ''jump''}"
    by (simp add: js_def)
  have left: "js ''left'' \<in> {js ''forward'', js ''back'', js ''left'', js ''right''}"
    by simp
  have halt: "js ''halt'' \<noteq> js ''start''"
    by (simp add: js_def)
  from move_other_direction_and_other_action
         [OF live_c1_lookup b, of "js ''up''" 7 "js ''start''" env_ok]
       move_other_direction_and_other_action
         [OF live_c1_lookup b, of "js ''left''" 7 "js ''halt''" env_ok]
       up left halt live_c1_lookup
  show ?thesis by blast
qed

end
